theory Spec2Isabelle
  imports Complex_Main "HOL-Library.List_Lexorder" "HOL-Library.AList"
begin

section \<open>Python values\<close>

text \<open>
  A Python \<open>str\<close> is a sequence of Unicode code points (0 to 0x10FFFF, lone surrogates
  included), so it is modelled as a list of naturals; \<open>py ''abc''\<close> is the \<open>str\<close> of an
  ASCII literal. The order of \<open>HOL-Library.List_Lexorder\<close> on such lists is Python's
  order on \<open>str\<close> (lexicographic by code point, a proper prefix first).
\<close>

type_synonym pystr = "nat list"

abbreviation (input) py :: "string \<Rightarrow> pystr" where
  "py s \<equiv> map of_char s"

text \<open>
  A Python \<open>float\<close> is given by the exact rational value of the double, or one of the
  three special values. The sign of zero is not kept (\<open>-0.0 == 0.0\<close> in Python, and the
  code only compares).
\<close>

datatype pyfloat = Finite rat | PosInf | NegInf | NaN

text \<open>The values \<open>json.loads\<close>, \<open>request.get_json()\<close> and \<open>response.json()\<close> produce.
  A \<open>dict\<close> keeps its insertion order: an association list.\<close>

datatype json =
    JNull
  | JBool bool
  | JInt int
  | JFloat pyfloat
  | JStr pystr
  | JArr "json list"
  | JObj "(pystr \<times> json) list"

text \<open>The exception classes the two modules raise or let through. The payload of
  \<open>ValueError\<close>, \<open>RuntimeError\<close> and \<open>RequestException\<close> is the message.\<close>

datatype exn =
    ValidationError
  | ValueError pystr
  | RuntimeError pystr
  | RequestException pystr
  | JSONDecodeError
  | TypeError
  | IndexError
  | KeyError
  | AttributeError
  | HTTPException

section \<open>Operations on Python values\<close>

text \<open>Truth value testing (\<open>not x\<close>): \<open>None\<close>, \<open>False\<close>, zero and the empty string, list
  and dict are false.\<close>

fun truthy :: "json \<Rightarrow> bool" where
  "truthy JNull = False"
| "truthy (JBool b) = b"
| "truthy (JInt n) = (n \<noteq> 0)"
| "truthy (JFloat f) = (f \<noteq> Finite 0)"
| "truthy (JStr s) = (s \<noteq> [])"
| "truthy (JArr xs) = (xs \<noteq> [])"
| "truthy (JObj kvs) = (kvs \<noteq> [])"

definition starts_with :: "pystr \<Rightarrow> pystr \<Rightarrow> bool" where
  "starts_with p s = (take (length p) s = p)"

fun is_substring :: "pystr \<Rightarrow> pystr \<Rightarrow> bool" where
  "is_substring k [] = (k = [])"
| "is_substring k (c # cs) = (starts_with k (c # cs) \<or> is_substring k cs)"

text \<open>\<open>k in x\<close> for a \<open>str\<close> \<open>k\<close>: a key of a dict, a substring of a \<open>str\<close>, an element of
  a list; \<open>TypeError\<close> on a value that is not a container.\<close>

fun py_contains :: "pystr \<Rightarrow> json \<Rightarrow> exn + bool" where
  "py_contains k (JObj kvs) = Inr (map_of kvs k \<noteq> None)"
| "py_contains k (JStr s) = Inr (is_substring k s)"
| "py_contains k (JArr xs) = Inr (JStr k \<in> set xs)"
| "py_contains k x = Inl TypeError"

text \<open>\<open>x[k]\<close> for a \<open>str\<close> \<open>k\<close>: \<open>KeyError\<close> on a dict without the key, \<open>TypeError\<close> on
  every other value (a \<open>str\<close> and a list take integer indices only).\<close>

fun py_getitem :: "pystr \<Rightarrow> json \<Rightarrow> exn + json" where
  "py_getitem k (JObj kvs) = (case map_of kvs k of None \<Rightarrow> Inl KeyError | Some v \<Rightarrow> Inr v)"
| "py_getitem k x = Inl TypeError"

text \<open>\<open>x[k] = v\<close> on a dict (the only use in the source is on a value just read with
  \<open>x[k]\<close>).\<close>

fun py_setitem :: "pystr \<Rightarrow> json \<Rightarrow> json \<Rightarrow> json" where
  "py_setitem k v (JObj kvs) = JObj (AList.update k v kvs)"
| "py_setitem k v x = x"

text \<open>\<open>x.get(k, default)\<close>: only a dict has the method.\<close>

fun py_get :: "json \<Rightarrow> pystr \<Rightarrow> json \<Rightarrow> exn + json" where
  "py_get (JObj kvs) k dflt = Inr (case map_of kvs k of None \<Rightarrow> dflt | Some v \<Rightarrow> v)"
| "py_get x k dflt = Inl AttributeError"

text \<open>\<open>x[0]\<close>: the first element of a list, the first character of a \<open>str\<close> (a \<open>str\<close> of
  length one), \<open>IndexError\<close> when empty; a dict decoded from JSON has no key \<open>0\<close>.\<close>

fun py_item0 :: "json \<Rightarrow> exn + json" where
  "py_item0 (JArr []) = Inl IndexError"
| "py_item0 (JArr (x # xs)) = Inr x"
| "py_item0 (JStr []) = Inl IndexError"
| "py_item0 (JStr (c # cs)) = Inr (JStr [c])"
| "py_item0 (JObj kvs) = Inl KeyError"
| "py_item0 x = Inl TypeError"

text \<open>\<open>x[:n]\<close>: a \<open>str\<close> and a list can be sliced.\<close>

fun py_slice_ok :: "json \<Rightarrow> bool" where
  "py_slice_ok (JStr s) = True"
| "py_slice_ok (JArr xs) = True"
| "py_slice_ok x = False"

text \<open>Sequencing of statements that may raise.\<close>

definition and_then :: "exn + 'a \<Rightarrow> ('a \<Rightarrow> exn + 'b) \<Rightarrow> exn + 'b" where
  "and_then r f = (case r of Inl e \<Rightarrow> Inl e | Inr v \<Rightarrow> f v)"

text \<open>\<open>str(n)\<close> of a natural number.\<close>

fun str_of_nat :: "nat \<Rightarrow> pystr" where
  "str_of_nat n = (if n < 10 then [0x30 + n] else str_of_nat (n div 10) @ [0x30 + n mod 10])"

declare str_of_nat.simps [simp del]

section \<open>Decimal literals to floats\<close>

text \<open>
  \<open>float(text)\<close> of CPython rounds the decimal value to the nearest IEEE 754 binary64
  number, ties to even, overflowing to infinity. \<open>binary64 p q\<close> is that rounding of the
  positive rational \<open>p / q\<close>: \<open>e\<close> is the binary exponent of the value, \<open>sh\<close> the
  exponent of one unit in the last place (subnormals below \<open>2 ^ - 1022\<close>), and \<open>m\<close> the
  rounded 53-bit significand.
\<close>

fun bit_length :: "nat \<Rightarrow> nat" where
  "bit_length n = (if n = 0 then 0 else Suc (bit_length (n div 2)))"

declare bit_length.simps [simp del]

definition pow2 :: "int \<Rightarrow> rat" where
  "pow2 k = (if 0 \<le> k then 2 ^ nat k else 1 / 2 ^ nat (- k))"

definition round_half_even :: "nat \<Rightarrow> nat \<Rightarrow> nat" where
  "round_half_even p q =
     (let d = p div q; r = p mod q
      in if 2 * r < q then d else if q < 2 * r then d + 1
         else if even d then d else d + 1)"

definition binary64 :: "nat \<Rightarrow> nat \<Rightarrow> pyfloat" where
  "binary64 p q =
     (if p = 0 then Finite 0
      else
        let k = int (bit_length p) - int (bit_length q);
            e = (if of_nat q * pow2 k \<le> (of_nat p :: rat) then k else k - 1);
            sh = max e (- 1022) - 52;
            m = (if 0 \<le> sh then round_half_even p (q * 2 ^ nat sh)
                 else round_half_even (p * 2 ^ nat (- sh)) q)
        in if (2::rat) ^ 1024 \<le> of_nat m * pow2 sh then PosInf
           else Finite (of_nat m * pow2 sh))"

definition fneg :: "pyfloat \<Rightarrow> pyfloat" where
  "fneg x = (case x of Finite r \<Rightarrow> Finite (- r) | PosInf \<Rightarrow> NegInf
             | NegInf \<Rightarrow> PosInf | NaN \<Rightarrow> NaN)"

definition float_of_decimal :: "bool \<Rightarrow> nat \<Rightarrow> int \<Rightarrow> pyfloat" where
  "float_of_decimal neg m e =
     (let x = (if 0 \<le> e then binary64 (m * 10 ^ nat e) 1 else binary64 m (10 ^ nat (- e)))
      in if neg then fneg x else x)"

section \<open>json.loads\<close>

text \<open>
  The decoder of the standard library, as \<open>json.loads\<close> runs it on a \<open>str\<close> with its
  default arguments (\<open>strict=True\<close>, no hooks): \<open>skip_ws\<close> is \<open>WHITESPACE.match\<close>,
  \<open>scanstring\<close> is \<open>py_scanstring\<close> entered after the opening quote, \<open>match_number\<close>
  is \<open>NUMBER_RE\<close> with the conversion of the match, and \<open>scan_once\<close>, \<open>JSONArray\<close>
  and \<open>JSONObject\<close> are the functions of these names. A function returns the decoded
  value with the rest of the text, or \<open>None\<close> where the decoder raises
  \<open>JSONDecodeError\<close>.
\<close>

definition is_ws :: "nat \<Rightarrow> bool" where
  "is_ws c = (c = 0x20 \<or> c = 0x09 \<or> c = 0x0A \<or> c = 0x0D)"

definition skip_ws :: "pystr \<Rightarrow> pystr" where
  "skip_ws s = dropWhile is_ws s"

definition hex_value :: "nat \<Rightarrow> nat option" where
  "hex_value c =
     (if 0x30 \<le> c \<and> c \<le> 0x39 then Some (c - 0x30)
      else if 0x61 \<le> c \<and> c \<le> 0x66 then Some (c - 0x57)
      else if 0x41 \<le> c \<and> c \<le> 0x46 then Some (c - 0x37)
      else None)"

definition decode_uXXXX :: "nat \<Rightarrow> nat \<Rightarrow> nat \<Rightarrow> nat \<Rightarrow> nat option" where
  "decode_uXXXX a b c d =
     (case hex_value a of
        None \<Rightarrow> None
      | Some w \<Rightarrow>
          (case hex_value b of
             None \<Rightarrow> None
           | Some x \<Rightarrow>
               (case hex_value c of
                  None \<Rightarrow> None
                | Some y \<Rightarrow>
                    (case hex_value d of
                       None \<Rightarrow> None
                     | Some z \<Rightarrow> Some (((w * 16 + x) * 16 + y) * 16 + z)))))"

definition BACKSLASH :: "nat \<Rightarrow> nat option" where
  "BACKSLASH e =
     (if e = 0x22 then Some 0x22
      else if e = 0x5C then Some 0x5C
      else if e = 0x2F then Some 0x2F
      else if e = 0x62 then Some 0x08
      else if e = 0x66 then Some 0x0C
      else if e = 0x6E then Some 0x0A
      else if e = 0x72 then Some 0x0D
      else if e = 0x74 then Some 0x09
      else None)"

definition push :: "nat \<Rightarrow> (pystr \<times> pystr) option \<Rightarrow> (pystr \<times> pystr) option" where
  "push c r = (case r of None \<Rightarrow> None | Some (s, rest) \<Rightarrow> Some (c # s, rest))"

definition is_high :: "nat \<Rightarrow> bool" where
  "is_high u = (0xD800 \<le> u \<and> u \<le> 0xDBFF)"

definition is_low :: "nat \<Rightarrow> bool" where
  "is_low u = (0xDC00 \<le> u \<and> u \<le> 0xDFFF)"

definition join_surrogates :: "nat \<Rightarrow> nat \<Rightarrow> nat" where
  "join_surrogates u u2 = 0x10000 + ((u - 0xD800) * 0x400 + (u2 - 0xDC00))"

fun scanstring :: "pystr \<Rightarrow> (pystr \<times> pystr) option" where
  "scanstring [] = None"
| "scanstring (c # cs) =
     (if c = 0x22 then Some ([], cs)
      else if c = 0x5C then
        (case cs of
           [] \<Rightarrow> None
         | e # r \<Rightarrow>
             if e = 0x75 then
               (case r of
                  h1 # h2 # h3 # h4 # r1 \<Rightarrow>
                    (case decode_uXXXX h1 h2 h3 h4 of
                       None \<Rightarrow> None
                     | Some u \<Rightarrow>
                         (case r1 of
                            b # v # k1 # k2 # k3 # k4 # r2 \<Rightarrow>
                              if is_high u \<and> b = 0x5C \<and> v = 0x75 then
                                (case decode_uXXXX k1 k2 k3 k4 of
                                   None \<Rightarrow> None
                                 | Some u2 \<Rightarrow>
                                     if is_low u2
                                     then push (join_surrogates u u2) (scanstring r2)
                                     else push u (scanstring r1))
                              else push u (scanstring r1)
                          | _ \<Rightarrow> push u (scanstring r1)))
                | _ \<Rightarrow> None)
             else
               (case BACKSLASH e of
                  None \<Rightarrow> None
                | Some ch \<Rightarrow> push ch (scanstring r)))
      else if c < 0x20 then None
      else push c (scanstring cs))"

definition is_digit :: "nat \<Rightarrow> bool" where
  "is_digit c = (0x30 \<le> c \<and> c \<le> 0x39)"

definition int_of_digits :: "pystr \<Rightarrow> nat" where
  "int_of_digits ds = foldl (\<lambda>a d. a * 10 + (d - 0x30)) 0 ds"

text \<open>NUMBER_RE: sign and integer part.\<close>

definition match_integer :: "pystr \<Rightarrow> (bool \<times> pystr \<times> pystr) option" where
  "match_integer s =
     (let neg = (s \<noteq> [] \<and> hd s = 0x2D);
          s1 = (if neg then tl s else s)
      in case s1 of
           [] \<Rightarrow> None
         | d # r \<Rightarrow>
             if d = 0x30 then Some (neg, [d], r)
             else if is_digit d then Some (neg, d # takeWhile is_digit r, dropWhile is_digit r)
             else None)"

definition match_frac :: "pystr \<Rightarrow> (pystr \<times> pystr) option" where
  "match_frac s =
     (case s of
        p # d # r \<Rightarrow>
          if p = 0x2E \<and> is_digit d then Some (d # takeWhile is_digit r, dropWhile is_digit r)
          else None
      | _ \<Rightarrow> None)"

definition match_exp :: "pystr \<Rightarrow> ((bool \<times> pystr) \<times> pystr) option" where
  "match_exp s =
     (case s of
        [] \<Rightarrow> None
      | e # r \<Rightarrow>
          if e = 0x65 \<or> e = 0x45 then
            (let sgn = (r \<noteq> [] \<and> (hd r = 0x2D \<or> hd r = 0x2B));
                 neg = (r \<noteq> [] \<and> hd r = 0x2D);
                 r1 = (if sgn then tl r else r)
             in if r1 \<noteq> [] \<and> is_digit (hd r1)
                then Some ((neg, takeWhile is_digit r1), dropWhile is_digit r1)
                else None)
          else None)"

definition match_number :: "pystr \<Rightarrow> (json \<times> pystr) option" where
  "match_number s =
     (case match_integer s of
        None \<Rightarrow> None
      | Some (neg, ip, r) \<Rightarrow>
          (let (fp, r1) = (case match_frac r of None \<Rightarrow> ([], r) | Some (f, r') \<Rightarrow> (f, r'));
               frac = (match_frac r \<noteq> None)
           in case match_exp r1 of
                None \<Rightarrow>
                  if frac
                  then Some (JFloat (float_of_decimal neg (int_of_digits (ip @ fp))
                                       (- int (length fp))), r1)
                  else Some (JInt (if neg then - int (int_of_digits ip)
                                   else int (int_of_digits ip)), r1)
              | Some ((eneg, ed), r2) \<Rightarrow>
                  Some (JFloat (float_of_decimal neg (int_of_digits (ip @ fp))
                          ((if eneg then - int (int_of_digits ed) else int (int_of_digits ed))
                            - int (length fp))), r2)))"

definition dict :: "(pystr \<times> json) list \<Rightarrow> (pystr \<times> json) list" where
  "dict pairs = foldl (\<lambda>d (k, v). AList.update k v d) [] pairs"

fun scan_once :: "nat \<Rightarrow> pystr \<Rightarrow> (json \<times> pystr) option"
and JSONArray :: "nat \<Rightarrow> pystr \<Rightarrow> json list \<Rightarrow> (json \<times> pystr) option"
and JSONObject :: "nat \<Rightarrow> pystr \<Rightarrow> (pystr \<times> json) list \<Rightarrow> (json \<times> pystr) option"
where
  "scan_once 0 s = None"
| "scan_once (Suc n) [] = None"
| "scan_once (Suc n) (c # cs) =
     (if c = 0x22 then
        (case scanstring cs of None \<Rightarrow> None | Some (str, r) \<Rightarrow> Some (JStr str, r))
      else if c = 0x7B then
        (case skip_ws cs of
           [] \<Rightarrow> None
         | d # r \<Rightarrow>
             if d = 0x7D then Some (JObj [], r)
             else if d = 0x22 then JSONObject n r []
             else None)
      else if c = 0x5B then
        (case skip_ws cs of
           [] \<Rightarrow> None
         | d # r \<Rightarrow>
             if d = 0x5D then Some (JArr [], r)
             else JSONArray n (d # r) [])
      else if starts_with (py ''null'') (c # cs) then Some (JNull, drop 4 (c # cs))
      else if starts_with (py ''true'') (c # cs) then Some (JBool True, drop 4 (c # cs))
      else if starts_with (py ''false'') (c # cs) then Some (JBool False, drop 5 (c # cs))
      else
        (case match_number (c # cs) of
           Some res \<Rightarrow> Some res
         | None \<Rightarrow>
             if starts_with (py ''NaN'') (c # cs) then Some (JFloat NaN, drop 3 (c # cs))
             else if starts_with (py ''Infinity'') (c # cs)
               then Some (JFloat PosInf, drop 8 (c # cs))
             else if starts_with (py ''-Infinity'') (c # cs)
               then Some (JFloat NegInf, drop 9 (c # cs))
             else None))"
| "JSONArray 0 s values = None"
| "JSONArray (Suc n) s values =
     (case scan_once n s of
        None \<Rightarrow> None
      | Some (v, r) \<Rightarrow>
          (case skip_ws r of
             [] \<Rightarrow> None
           | d # r1 \<Rightarrow>
               if d = 0x5D then Some (JArr (values @ [v]), r1)
               else if d = 0x2C then JSONArray n (skip_ws r1) (values @ [v])
               else None))"
| "JSONObject 0 s pairs = None"
| "JSONObject (Suc n) s pairs =
     (case scanstring s of
        None \<Rightarrow> None
      | Some (key, r) \<Rightarrow>
          (case skip_ws r of
             [] \<Rightarrow> None
           | d # r1 \<Rightarrow>
               if d \<noteq> 0x3A then None
               else
                 (case scan_once n (skip_ws r1) of
                    None \<Rightarrow> None
                  | Some (v, r2) \<Rightarrow>
                      (case skip_ws r2 of
                         [] \<Rightarrow> None
                       | d2 # r3 \<Rightarrow>
                           if d2 = 0x7D then Some (JObj (dict (pairs @ [(key, v)])), r3)
                           else if d2 = 0x2C then
                             (case skip_ws r3 of
                                [] \<Rightarrow> None
                              | q # r4 \<Rightarrow>
                                  if q = 0x22 then JSONObject n r4 (pairs @ [(key, v)])
                                  else None)
                           else None))))"

definition json_loads :: "pystr \<Rightarrow> json option" where
  "json_loads s =
     (if starts_with [0xFEFF] s then None
      else case scan_once (Suc (length s)) (skip_ws s) of
             None \<Rightarrow> None
           | Some (v, r) \<Rightarrow> if skip_ws r = [] then Some v else None)"



section \<open>json.dumps of the prompt context\<close>

text \<open>
  \<open>py_encode_basestring_ascii\<close> (\<open>ensure_ascii\<close> is on by default): a printable ASCII
  character other than the quote and the backslash stands for itself, seven characters
  have a short escape, and every other code point is written \<open>\uXXXX\<close> in lower-case
  hexadecimal, as a surrogate pair above the basic plane. (The source computes the pair
  with shifts and masks: \<open>0xd800 | ((n >> 10) & 0x3ff)\<close> and \<open>0xdc00 | (n & 0x3ff)\<close>.)
\<close>

definition hex_digit :: "nat \<Rightarrow> nat" where
  "hex_digit d = (if d < 10 then 0x30 + d else 0x57 + d)"

definition u_escape :: "nat \<Rightarrow> pystr" where
  "u_escape n =
     [0x5C, 0x75, hex_digit (n div 4096 mod 16), hex_digit (n div 256 mod 16),
      hex_digit (n div 16 mod 16), hex_digit (n mod 16)]"

definition encode_char :: "nat \<Rightarrow> pystr" where
  "encode_char c =
     (if c = 0x5C then [0x5C, 0x5C]
      else if c = 0x22 then [0x5C, 0x22]
      else if c = 0x08 then [0x5C, 0x62]
      else if c = 0x0C then [0x5C, 0x66]
      else if c = 0x0A then [0x5C, 0x6E]
      else if c = 0x0D then [0x5C, 0x72]
      else if c = 0x09 then [0x5C, 0x74]
      else if 0x20 \<le> c \<and> c \<le> 0x7E then [c]
      else if c < 0x10000 then u_escape c
      else u_escape (0xD800 + (c - 0x10000) div 1024 mod 1024) @
           u_escape (0xDC00 + (c - 0x10000) mod 1024))"

definition encode_basestring_ascii :: "pystr \<Rightarrow> pystr" where
  "encode_basestring_ascii s = [0x22] @ concat (map encode_char s) @ [0x22]"

text \<open>
  \<open>json.dumps(d, indent=2)\<close> for the one shape the service passes: a dict of the three
  keys whose values are a \<open>str\<close>, a \<open>str\<close> and a list of \<open>str\<close>. With an indent the item
  separator is a comma followed by a newline and the indentation of the level, the key
  separator is a colon and a space, and an empty list is written \<open>[]\<close>.
\<close>

definition newline_indent :: "nat \<Rightarrow> pystr" where
  "newline_indent level = 0x0A # replicate (2 * level) 0x20"

fun join_items :: "pystr \<Rightarrow> pystr list \<Rightarrow> pystr" where
  "join_items sep [] = []"
| "join_items sep [x] = x"
| "join_items sep (x # y # ys) = x @ sep @ join_items sep (y # ys)"

definition dumps_str_list :: "nat \<Rightarrow> pystr list \<Rightarrow> pystr" where
  "dumps_str_list level xs =
     (if xs = [] then py ''[]''
      else py ''['' @ newline_indent (level + 1) @
           join_items (py '','' @ newline_indent (level + 1)) (map encode_basestring_ascii xs) @
           newline_indent level @ py '']'')"

definition dumps_user_prompt :: "pystr \<Rightarrow> pystr \<Rightarrow> pystr list \<Rightarrow> pystr" where
  "dumps_user_prompt objective question existing_categories =
     py ''{'' @ newline_indent 1 @
     encode_basestring_ascii (py ''user_answer'') @ py '': '' @
       encode_basestring_ascii objective @
     py '','' @ newline_indent 1 @
     encode_basestring_ascii (py ''question'') @ py '': '' @
       encode_basestring_ascii question @
     py '','' @ newline_indent 1 @
     encode_basestring_ascii (py ''existing_categories'') @ py '': '' @
       dumps_str_list 1 existing_categories @
     newline_indent 0 @ py ''}''"

section \<open>ai\_classifier\_service.py: the pydantic models\<close>

record classification_result =
  primaryDomain :: pystr
  confidenceScore :: pyfloat
  justification :: pystr

text \<open>
  pydantic validates in its default (lax) mode. A \<open>str\<close> field takes a \<open>str\<close> and nothing
  else that JSON can carry. A \<open>float\<close> field takes a float, an int (converted), a bool
  (\<open>0.0\<close> or \<open>1.0\<close>) and a \<open>str\<close> that reads as a float; \<open>ge=0.0, le=1.0\<close> are checked on
  the converted value, and no comparison holds of NaN.
\<close>

definition validate_str :: "json \<Rightarrow> pystr option" where
  "validate_str v = (case v of JStr s \<Rightarrow> Some s | _ \<Rightarrow> None)"

text \<open>
  The text-to-float step of the lax \<open>float\<close> field: white space around the text is
  dropped; then an optional sign, and either \<open>inf\<close>, \<open>infinity\<close> or \<open>nan\<close> in any case, or
  decimal digits with an optional fraction and an optional exponent, at least one digit
  in the mantissa. A text that fails this way is read once more with its underscores
  removed when it has single underscores inside only.
\<close>

definition is_space :: "nat \<Rightarrow> bool" where
  "is_space c =
     ((0x09 \<le> c \<and> c \<le> 0x0D) \<or> c = 0x20 \<or> c = 0x85 \<or> c = 0xA0 \<or> c = 0x1680 \<or>
      (0x2000 \<le> c \<and> c \<le> 0x200A) \<or> c = 0x2028 \<or> c = 0x2029 \<or> c = 0x202F \<or>
      c = 0x205F \<or> c = 0x3000)"

definition trim :: "pystr \<Rightarrow> pystr" where
  "trim s = rev (dropWhile is_space (rev (dropWhile is_space s)))"

definition lower :: "nat \<Rightarrow> nat" where
  "lower c = (if 0x41 \<le> c \<and> c \<le> 0x5A then c + 0x20 else c)"

definition parse_exponent :: "pystr \<Rightarrow> int option" where
  "parse_exponent r =
     (if r = [] then Some 0
      else if lower (hd r) \<noteq> 0x65 then None
      else
        let r1 = tl r;
            sgn = (r1 \<noteq> [] \<and> (hd r1 = 0x2D \<or> hd r1 = 0x2B));
            ds = (if sgn then tl r1 else r1)
        in if ds = [] \<or> \<not> list_all is_digit ds then None
           else if r1 \<noteq> [] \<and> hd r1 = 0x2D then Some (- int (int_of_digits ds))
           else Some (int (int_of_digits ds)))"

definition parse_f64 :: "pystr \<Rightarrow> pyfloat option" where
  "parse_f64 s =
     (let sgn = (s \<noteq> [] \<and> (hd s = 0x2D \<or> hd s = 0x2B));
          neg = (s \<noteq> [] \<and> hd s = 0x2D);
          b = (if sgn then tl s else s);
          w = map lower b
      in if w = py ''inf'' \<or> w = py ''infinity'' then Some (if neg then NegInf else PosInf)
         else if w = py ''nan'' then Some NaN
         else
           let ip = takeWhile is_digit b;
               r = dropWhile is_digit b;
               dot = (r \<noteq> [] \<and> hd r = 0x2E);
               fp = (if dot then takeWhile is_digit (tl r) else []);
               r1 = (if dot then dropWhile is_digit (tl r) else r)
           in if ip = [] \<and> fp = [] then None
              else case parse_exponent r1 of
                     None \<Rightarrow> None
                   | Some e \<Rightarrow>
                       Some (float_of_decimal neg (int_of_digits (ip @ fp))
                               (e - int (length fp))))"

fun double_underscore :: "pystr \<Rightarrow> bool" where
  "double_underscore (a # b # cs) = ((a = 0x5F \<and> b = 0x5F) \<or> double_underscore (b # cs))"
| "double_underscore cs = False"

definition strip_underscores :: "pystr \<Rightarrow> pystr option" where
  "strip_underscores s =
     (if s = [] \<or> hd s = 0x5F \<or> last s = 0x5F \<or> 0x5F \<notin> set s \<or> double_underscore s
      then None
      else Some (filter (\<lambda>c. c \<noteq> 0x5F) s))"

definition str_as_float :: "pystr \<Rightarrow> pyfloat option" where
  "str_as_float s =
     (case parse_f64 (trim s) of
        Some f \<Rightarrow> Some f
      | None \<Rightarrow>
          (case strip_underscores s of
             None \<Rightarrow> None
           | Some stripped \<Rightarrow> parse_f64 stripped))"

definition float_of_int :: "int \<Rightarrow> pyfloat" where
  "float_of_int n = (if n < 0 then fneg (binary64 (nat (- n)) 1) else binary64 (nat n) 1)"

definition validate_float :: "json \<Rightarrow> pyfloat option" where
  "validate_float v =
     (case v of
        JFloat f \<Rightarrow> Some f
      | JInt n \<Rightarrow> Some (float_of_int n)
      | JBool b \<Rightarrow> Some (Finite (if b then 1 else 0))
      | JStr s \<Rightarrow> str_as_float s
      | _ \<Rightarrow> None)"

definition in_unit_interval :: "pyfloat \<Rightarrow> bool" where
  "in_unit_interval f = (case f of Finite r \<Rightarrow> 0 \<le> r \<and> r \<le> 1 | _ \<Rightarrow> False)"

text \<open>
  \<open>ClassificationRequest(answer=objective)\<close> and \<open>ClassificationResult(**data)\<close>: every
  field is required (\<open>Field(...)\<close>), a key the model does not declare is ignored, and
  any field that is absent or does not validate raises \<open>ValidationError\<close>.
\<close>

definition ClassificationRequest :: "json \<Rightarrow> exn + pystr" where
  "ClassificationRequest objective =
     (case validate_str objective of None \<Rightarrow> Inl ValidationError | Some s \<Rightarrow> Inr s)"

definition ClassificationResult :: "(pystr \<times> json) list \<Rightarrow> exn + classification_result" where
  "ClassificationResult kwargs =
     (case (map_of kwargs (py ''primaryDomain''),
            map_of kwargs (py ''confidenceScore''),
            map_of kwargs (py ''justification'')) of
        (Some d, Some c, Some j) \<Rightarrow>
          (case (validate_str d, validate_float c, validate_str j) of
             (Some pd, Some cs, Some js) \<Rightarrow>
               if in_unit_interval cs
               then Inr \<lparr>primaryDomain = pd, confidenceScore = cs, justification = js\<rparr>
               else Inl ValidationError
           | _ \<Rightarrow> Inl ValidationError)
      | _ \<Rightarrow> Inl ValidationError)"

section \<open>ai\_classifier\_service.py: the response schema and the payload\<close>

text \<open>
  \<open>ClassificationResult.model_json_schema()\<close>: the JSON schema pydantic derives from the
  three declared fields (their descriptions, the bounds of \<open>confidenceScore\<close>, the title
  it makes of each name, the JSON type of each annotation), properties in declaration
  order and every other key in alphabetical order.
\<close>

definition model_json_schema :: "(pystr \<times> json) list" where
  "model_json_schema =
     [(py ''description'',
         JStr (py ''Defines the required structured output from the Gemini model,\<newline>'' @
               py ''where a definitive category is always chosen.'')),
      (py ''properties'', JObj
         [(py ''primaryDomain'', JObj
             [(py ''description'',
                 JStr (py ''The final, most suitable category for the user's response. '' @
                       py ''This can be one of the existing categories or a newly '' @
                       py ''generated one if no existing category fits.'')),
              (py ''title'', JStr (py ''Primarydomain'')),
              (py ''type'', JStr (py ''string''))]),
          (py ''confidenceScore'', JObj
             [(py ''description'', JStr (py ''The classification confidence (0.0 to 1.0).'')),
              (py ''maximum'', JFloat (Finite 1)),
              (py ''minimum'', JFloat (Finite 0)),
              (py ''title'', JStr (py ''Confidencescore'')),
              (py ''type'', JStr (py ''number''))]),
          (py ''justification'', JObj
             [(py ''description'',
                 JStr (py ''A concise, single-sentence explanation for the chosen '' @
                       py ''classification.'')),
              (py ''title'', JStr (py ''Justification'')),
              (py ''type'', JStr (py ''string''))])]),
      (py ''required'',
         JArr [JStr (py ''primaryDomain''), JStr (py ''confidenceScore''),
               JStr (py ''justification'')]),
      (py ''title'', JStr (py ''ClassificationResult'')),
      (py ''type'', JStr (py ''object''))]"

text \<open>\<open>str.upper\<close>, on the ASCII letters (the type tags of a JSON schema are ASCII).\<close>

definition upper :: "pystr \<Rightarrow> pystr" where
  "upper s = map (\<lambda>c. if 0x61 \<le> c \<and> c \<le> 0x7A then c - 0x20 else c) s"

text \<open>\<open>x.upper()\<close> of a value that may not be a \<open>str\<close>.\<close>

definition py_upper :: "json \<Rightarrow> exn + json" where
  "py_upper v = (case v of JStr s \<Rightarrow> Inr (JStr (upper s)) | _ \<Rightarrow> Inl AttributeError)"

text \<open>The loop over \<open>schema['properties'].values()\<close>: a property that has a \<open>type\<close> gets
  it upper-cased in place.\<close>

fun upper_prop_types :: "(pystr \<times> json) list \<Rightarrow> exn + (pystr \<times> json) list" where
  "upper_prop_types [] = Inr []"
| "upper_prop_types ((name, prop) # props) =
     (case py_contains (py ''type'') prop of
        Inl e \<Rightarrow> Inl e
      | Inr False \<Rightarrow>
          (case upper_prop_types props of
             Inl e \<Rightarrow> Inl e
           | Inr props' \<Rightarrow> Inr ((name, prop) # props'))
      | Inr True \<Rightarrow>
          (case py_getitem (py ''type'') prop of
             Inl e \<Rightarrow> Inl e
           | Inr t \<Rightarrow>
               (case py_upper t of
                  Inl e \<Rightarrow> Inl e
                | Inr t' \<Rightarrow>
                    (case upper_prop_types props of
                       Inl e \<Rightarrow> Inl e
                     | Inr props' \<Rightarrow>
                         Inr ((name, py_setitem (py ''type'') t' prop) # props')))))"

text \<open>
  The body of \<open>get_response_schema\<close> on a schema dict: \<open>schema.pop('type')\<close> removes the
  key and the assignment puts it back last; the properties are updated in place;
  \<open>propertyOrdering\<close> is added last, the keys of \<open>properties\<close> in their order.
\<close>

definition compile_schema :: "(pystr \<times> json) list \<Rightarrow> exn + (pystr \<times> json) list" where
  "compile_schema schema =
     (case map_of schema (py ''type'') of
        None \<Rightarrow> Inl KeyError
      | Some t \<Rightarrow>
          (case py_upper t of
             Inl e \<Rightarrow> Inl e
           | Inr t' \<Rightarrow>
               (let schema1 = AList.update (py ''type'') t' (AList.delete (py ''type'') schema)
                in case map_of schema1 (py ''properties'') of
                     None \<Rightarrow> Inr (AList.update (py ''propertyOrdering'') (JArr []) schema1)
                   | Some (JObj props) \<Rightarrow>
                       (case upper_prop_types props of
                          Inl e \<Rightarrow> Inl e
                        | Inr props' \<Rightarrow>
                            Inr (AList.update (py ''propertyOrdering'')
                                   (JArr (map (\<lambda>(k, v). JStr k) props'))
                                   (AList.update (py ''properties'') (JObj props') schema1)))
                   | Some other \<Rightarrow> Inl AttributeError)))"

definition get_response_schema :: "exn + (pystr \<times> json) list" where
  "get_response_schema = compile_schema model_json_schema"

definition BASE_SYSTEM_PROMPT :: pystr where
  "BASE_SYSTEM_PROMPT =
     py ''\<newline>'' @
     py ''You are an intelligent engine for real-time survey analysis. Carefully read '' @
     py ''and interpret each user response, then assign it to the most appropriate '' @
     py ''category based on the survey question and existing categories.\<newline>'' @
     py ''\<newline>'' @
     py ''**Instructions:**\<newline>'' @
     py ''1. Evaluate the user's answer in the context of the survey question.\<newline>'' @
     py ''2. First, check if the answer reasonably fits any of the **Existing '' @
     py ''Categories** (semantic meaning counts, not just exact wording). \<newline>'' @
     py ''3. If it fits an existing category, set '' @ [0x60] @ py ''primaryDomain'' @ [0x60] @
     py '' to that exact category name. Always prefer existing categories over creating '' @
     py ''new ones.\<newline>'' @
     py ''4. Only if the answer does not reasonably fit any existing category, create a '' @
     py ''new, concise category name (distinct from the user's answer) and assign it to '' @
     [0x60] @ py ''primaryDomain'' @ [0x60] @ py ''.\<newline>'' @
     py ''5. Always follow the provided JSON schema strictly in your output.\<newline>''"

definition get_gemini_api_payload :: "json \<Rightarrow> pystr \<Rightarrow> pystr list \<Rightarrow> exn + json" where
  "get_gemini_api_payload objective question existing_categories =
     (case ClassificationRequest objective of
        Inl e \<Rightarrow> Inl (ValueError (py ''Invalid objective format.''))
      | Inr answer_text \<Rightarrow>
          (let user_prompt = dumps_user_prompt answer_text question existing_categories
           in case get_response_schema of
                Inl e \<Rightarrow> Inl e
              | Inr schema \<Rightarrow>
                  Inr (JObj
                    [(py ''contents'',
                        JArr [JObj [(py ''parts'', JArr [JObj [(py ''text'', JStr user_prompt)]])]]),
                     (py ''systemInstruction'',
                        JObj [(py ''parts'',
                                 JArr [JObj [(py ''text'', JStr BASE_SYSTEM_PROMPT)]])]),
                     (py ''generationConfig'',
                        JObj [(py ''responseMimeType'', JStr (py ''application/json'')),
                              (py ''responseSchema'', JObj schema)])])))"

section \<open>ai\_classifier\_service.py: the classification client\<close>

text \<open>
  What \<open>requests.post\<close> meets. \<open>PostRaised m\<close>: the call raised a \<open>RequestException\<close>
  (connection refused, timeout) whose text is \<open>m\<close>. \<open>Response status reason body\<close>: a
  response arrived; \<open>body\<close> is what \<open>response.json()\<close> gives, the decoded value or the text
  of the \<open>requests.exceptions.JSONDecodeError\<close> it raises (a \<open>RequestException\<close>).
\<close>

datatype http_outcome =
    PostRaised pystr
  | Response nat pystr "pystr + json"

type_synonym provider = "pystr \<Rightarrow> json \<Rightarrow> http_outcome"

text \<open>\<open>response.raise_for_status()\<close>: the text of the \<open>HTTPError\<close> for a 4xx or 5xx status.\<close>

definition raise_for_status :: "nat \<Rightarrow> pystr \<Rightarrow> pystr \<Rightarrow> pystr option" where
  "raise_for_status status reason url =
     (if 400 \<le> status \<and> status < 500
      then Some (str_of_nat status @ py '' Client Error: '' @ reason @ py '' for url: '' @ url)
      else if 500 \<le> status \<and> status < 600
      then Some (str_of_nat status @ py '' Server Error: '' @ reason @ py '' for url: '' @ url)
      else None)"

text \<open>Line 127: the path \<open>candidates[0].content.parts[0].text\<close> with its defaults.\<close>

definition extract_text :: "json \<Rightarrow> exn + json" where
  "extract_text api_response_data =
     and_then (py_get api_response_data (py ''candidates'') (JArr [JObj []])) (\<lambda>candidates.
     and_then (py_item0 candidates) (\<lambda>candidate.
     and_then (py_get candidate (py ''content'') (JObj [])) (\<lambda>content.
     and_then (py_get content (py ''parts'') (JArr [JObj []])) (\<lambda>parts.
     and_then (py_item0 parts) (\<lambda>part.
     py_get part (py ''text'') (JStr (py ''{}'')))))))"

text \<open>Lines 132 to 135: \<open>json.loads(json_string)\<close>, then
  \<open>ClassificationResult(**model_output_data)\<close>. \<open>json.loads\<close> takes a \<open>str\<close>, and \<open>**\<close> takes a
  mapping.\<close>

definition parse_model_output :: "json \<Rightarrow> exn + classification_result" where
  "parse_model_output json_string =
     (case json_string of
        JStr s \<Rightarrow>
          (case json_loads s of
             None \<Rightarrow> Inl JSONDecodeError
           | Some model_output_data \<Rightarrow>
               (case model_output_data of
                  JObj kwargs \<Rightarrow> ClassificationResult kwargs
                | _ \<Rightarrow> Inl TypeError))
      | _ \<Rightarrow> Inl TypeError)"

definition empty_output_msg :: pystr where
  "empty_output_msg = py ''AI model did not return valid classification content.''"

definition schema_failure_msg :: pystr where
  "schema_failure_msg = py ''AI output failed schema validation.''"

definition communication_msg :: "pystr \<Rightarrow> pystr" where
  "communication_msg e = py ''Failed to communicate with the AI service: '' @ e"

text \<open>Lines 126 to 138, from the decoded response to the result.\<close>

definition read_response :: "json \<Rightarrow> exn + classification_result" where
  "read_response api_response_data =
     and_then (extract_text api_response_data) (\<lambda>json_string.
       if \<not> truthy json_string \<or> json_string = JStr (py ''{}'')
       then Inl (RuntimeError empty_output_msg)
       else parse_model_output json_string)"

text \<open>The three \<open>except\<close> clauses of \<open>classify_learning_objective\<close>, in their order: what
  leaves the function when \<open>e\<close> was raised inside the \<open>try\<close>.\<close>

definition service_except :: "exn \<Rightarrow> exn" where
  "service_except e =
     (case e of
        ValidationError \<Rightarrow> RuntimeError schema_failure_msg
      | RequestException m \<Rightarrow> RuntimeError (communication_msg m)
      | _ \<Rightarrow> e)"

text \<open>
  \<open>classify_learning_objective\<close>, with the provider as a parameter. The second component
  of the result is the list of requests posted, each the URL and the payload.
\<close>

definition classify_learning_objective ::
  "provider \<Rightarrow> json \<Rightarrow> pystr \<Rightarrow> pystr \<Rightarrow> pystr \<Rightarrow> pystr list
     \<Rightarrow> (exn + classification_result) \<times> (pystr \<times> json) list" where
  "classify_learning_objective net objective api_url api_key question existing_categories =
     (case get_gemini_api_payload objective question existing_categories of
        Inl e \<Rightarrow> (Inl (service_except e), [])
      | Inr payload \<Rightarrow>
          (let full_api_url = api_url @ py ''?key='' @ api_key;
               posted = [(full_api_url, payload)]
           in case net full_api_url payload of
                PostRaised m \<Rightarrow> (Inl (service_except (RequestException m)), posted)
              | Response status reason body \<Rightarrow>
                  (case raise_for_status status reason full_api_url of
                     Some m \<Rightarrow> (Inl (service_except (RequestException m)), posted)
                   | None \<Rightarrow>
                       (case body of
                          Inl m \<Rightarrow> (Inl (service_except (RequestException m)), posted)
                        | Inr api_response_data \<Rightarrow>
                            (case read_response api_response_data of
                               Inl e \<Rightarrow> (Inl (service_except e), posted)
                             | Inr classification_result \<Rightarrow>
                                 (Inr classification_result, posted))))))"

section \<open>app.py: the shared state and the handlers\<close>

text \<open>One entry of \<open>user_responses\<close> (the dict \<open>new_response\<close> of \<open>classify_objective\<close>).\<close>

record response =
  res_id :: pystr
  userId :: pystr
  answer :: json
  classification :: classification_result
  timestamp :: int

text \<open>
  The module globals \<open>user_responses\<close> and \<open>current_question\<close>, and the log of
  \<open>socketio.emit('state_update', {'question': q, 'responses': rs})\<close> broadcasts, each
  recorded as \<open>(q, rs)\<close>.
\<close>

record app_state =
  user_responses :: "response list"
  current_question :: pystr
  emitted :: "(pystr \<times> response list) list"

text \<open>The Flask session: \<open>session.get('logged_in')\<close> and \<open>session.get('user_id')\<close>.\<close>

record session =
  logged_in :: bool
  user_id :: "pystr option"

definition handle_clear_data :: "session \<Rightarrow> app_state \<Rightarrow> app_state" where
  "handle_clear_data sess st =
     (if logged_in sess
      then st\<lparr>user_responses := [],
              emitted := emitted st @ [(current_question st, [])]\<rparr>
      else st)"

text \<open>What \<open>jsonify(body), status\<close> returns.\<close>

record http_response =
  status_code :: nat
  json_body :: json

definition GEMINI_API_URL :: pystr where
  "GEMINI_API_URL =
     py ''https://generativelanguage.googleapis.com/v1beta/models/'' @
     py ''gemini-2.5-flash-preview-05-20:generateContent''"

definition error_response :: "nat \<Rightarrow> pystr \<Rightarrow> http_response" where
  "error_response code msg = \<lparr>status_code = code, json_body = JObj [(py ''error'', JStr msg)]\<rparr>"

text \<open>The three \<open>except\<close> clauses of \<open>classify_objective\<close>, in their order
  (\<open>e.errors()\<close> of a \<open>ValidationError\<close> is not modelled: an empty list stands for it).\<close>

definition endpoint_except :: "exn \<Rightarrow> http_response" where
  "endpoint_except e =
     (case e of
        ValidationError \<Rightarrow>
          \<lparr>status_code = 422,
           json_body = JObj [(py ''error'', JStr (py ''Data validation failed'')),
                             (py ''details'', JArr [])]\<rparr>
      | RuntimeError m \<Rightarrow>
          error_response 500 (py ''AI classification failed due to internal schema mismatch.'')
      | _ \<Rightarrow> error_response 500 (py ''An internal server error occurred.''))"

text \<open>Lines 130 to 132: \<open>sorted(list(set(...)))\<close> of the \<open>primaryDomain\<close> of every record.\<close>

definition existing_categories :: "response list \<Rightarrow> pystr list" where
  "existing_categories rs = sort (remdups (map (\<lambda>res. primaryDomain (classification res)) rs))"

text \<open>\<open>classification_result.model_dump()\<close>.\<close>

definition model_dump :: "classification_result \<Rightarrow> (pystr \<times> json) list" where
  "model_dump r =
     [(py ''primaryDomain'', JStr (primaryDomain r)),
      (py ''confidenceScore'', JFloat (confidenceScore r)),
      (py ''justification'', JStr (justification r))]"

text \<open>
  The statements of the \<open>try\<close> block after the check of the API key, from
  \<open>request.get_json()\<close> to the call of the service: the objective, or the response of an
  early \<open>return\<close>, or the exception raised. \<open>get_json\<close> is what \<open>request.get_json()\<close> does:
  it returns the decoded body or raises.
\<close>

definition missing_answer_msg :: pystr where
  "missing_answer_msg = py ''Missing required field 'answer'' @ [0x27]"

definition read_objective :: "exn + json \<Rightarrow> exn + (http_response + json)" where
  "read_objective get_json =
     and_then get_json (\<lambda>data.
       if \<not> truthy data
       then Inr (Inl (error_response 400 missing_answer_msg))
       else
         and_then (py_contains (py ''answer'') data) (\<lambda>present.
           if \<not> present
           then Inr (Inl (error_response 400 missing_answer_msg))
           else
             and_then (py_getitem (py ''answer'') data) (\<lambda>objective.
               if py_slice_ok objective then Inr (Inr objective) else Inl TypeError)))"

text \<open>
  \<open>classify_objective\<close>. Its parameters are what the handler reads from its
  environment: \<open>GEMINI_API_KEY\<close> (\<open>None\<close> when the variable is not set), the provider,
  \<open>int(time.time())\<close>, the session and \<open>request.get_json()\<close>; it returns the response,
  the new state and the requests posted to the provider. \<open>model_dump()\<close> has the three
  declared keys and no \<open>timestamp\<close>, so the record is stamped with the current time.
\<close>

definition not_configured_msg :: pystr where
  "not_configured_msg = py ''Server is not configured for AI classification.''"

definition classify_objective ::
  "pystr option \<Rightarrow> provider \<Rightarrow> int \<Rightarrow> session \<Rightarrow> exn + json \<Rightarrow> app_state
     \<Rightarrow> http_response \<times> app_state \<times> (pystr \<times> json) list" where
  "classify_objective api_key net now sess get_json st =
     (case api_key of
        None \<Rightarrow> (error_response 500 not_configured_msg, st, [])
      | Some key \<Rightarrow>
          if key = [] then (error_response 500 not_configured_msg, st, [])
          else
            (case read_objective get_json of
               Inl e \<Rightarrow> (endpoint_except e, st, [])
             | Inr (Inl early) \<Rightarrow> (early, st, [])
             | Inr (Inr objective) \<Rightarrow>
                 (case classify_learning_objective net objective GEMINI_API_URL key
                         (current_question st) (existing_categories (user_responses st)) of
                    (Inl e, posted) \<Rightarrow> (endpoint_except e, st, posted)
                  | (Inr classification_result, posted) \<Rightarrow>
                      (let new_response =
                             \<lparr>res_id = py ''res-'' @ str_of_nat (length (user_responses st) + 1),
                              userId = (case user_id sess of
                                          None \<Rightarrow> py ''anonymous'' | Some u \<Rightarrow> u),
                              answer = objective,
                              classification = classification_result,
                              timestamp = now\<rparr>;
                           responses = user_responses st @ [new_response]
                       in (\<lparr>status_code = 200,
                            json_body = JObj (model_dump classification_result)\<rparr>,
                           st\<lparr>user_responses := responses,
                              emitted := emitted st @ [(current_question st, responses)]\<rparr>,
                           posted)))))"

section \<open>The administrative reset\<close>

text \<open>
  C8. The administrative reset is idempotent and total: from every starting history,
  the clear operation performed by a logged-in admin leaves the history empty, and
  performed a second time right after it leaves the history empty again.
  \<open>handle_clear_data\<close> has no raising statement, so its model has no error result:
  both invocations return a state.
\<close>

theorem clear_all_data_idempotent:
  "logged_in sess \<Longrightarrow>
     user_responses (handle_clear_data sess st) = [] \<and>
     user_responses (handle_clear_data sess (handle_clear_data sess st)) = []"
  by (simp add: handle_clear_data_def)

theorem clear_all_data_idempotent_witness:
  "logged_in \<lparr>logged_in = True, user_id = None\<rparr> \<and>
   user_responses (handle_clear_data \<lparr>logged_in = True, user_id = None\<rparr>
     \<lparr>user_responses = [\<lparr>res_id = py ''res-1'', userId = py ''anonymous'',
          answer = JStr (py ''imaging''),
          classification = \<lparr>primaryDomain = py ''Oncology'', confidenceScore = Finite 1,
            justification = py ''j''\<rparr>,
          timestamp = 0\<rparr>],
      current_question = py ''q'', emitted = []\<rparr>) = [] \<and>
   user_responses (handle_clear_data \<lparr>logged_in = True, user_id = None\<rparr>
     (handle_clear_data \<lparr>logged_in = True, user_id = None\<rparr>
       \<lparr>user_responses = [\<lparr>res_id = py ''res-1'', userId = py ''anonymous'',
            answer = JStr (py ''imaging''),
            classification = \<lparr>primaryDomain = py ''Oncology'', confidenceScore = Finite 1,
              justification = py ''j''\<rparr>,
            timestamp = 0\<rparr>],
        current_question = py ''q'', emitted = []\<rparr>)) = []"
  using clear_all_data_idempotent
    [of "\<lparr>logged_in = True, user_id = None\<rparr>"
        "\<lparr>user_responses = [\<lparr>res_id = py ''res-1'', userId = py ''anonymous'',
          answer = JStr (py ''imaging''),
          classification = \<lparr>primaryDomain = py ''Oncology'', confidenceScore = Finite 1,
            justification = py ''j''\<rparr>,
          timestamp = 0\<rparr>],
         current_question = py ''q'', emitted = []\<rparr>"]
  by simp

end
